theory Spec2Isabelle
  imports Complex_Main
begin

section \<open>Data model\<close>

text \<open>
  The analyzer of \<^verbatim>\<open>src/deep_analyzer.py\<close> works on Python dictionaries decoded from
  JSON. A dictionary with a fixed set of keys is a record here; a key that one code path
  writes and another does not is an \<open>option\<close> field (\<open>None\<close>: the key is absent).
  Python floats are modelled as exact reals: rounding is not modelled, and neither are
  the values \<^verbatim>\<open>nan\<close> and \<^verbatim>\<open>inf\<close>.

  A holder as the providers return it. \<open>amount\<close> is the value the code reads with
  \<^verbatim>\<open>float(h.get('amount', 0))\<close> (a missing key reads as 0).
\<close>

record account =
  amount :: real
  owner :: string
  acc_address :: string

text \<open>One entry of \<^verbatim>\<open>top_10_holders\<close>, as the Helius path builds it.\<close>

record holder_entry =
  address :: string
  balance :: real
  percentage :: real

text \<open>
  The holder analysis dictionary. \<^verbatim>\<open>total_supply\<close> and \<^verbatim>\<open>top_10_holders\<close> are written
  by \<^verbatim>\<open>get_holder_distribution_from_helius\<close> only.
\<close>

record holder_analysis =
  total_holders :: nat
  total_supply :: "real option"
  top_10_percentage :: real
  top_50_percentage :: real
  dev_wallet_percentage :: real
  dev_has_sold :: bool
  bundle_detected :: bool
  bundle_percentage :: real
  holder_distribution :: string
  top_10_holders :: "holder_entry list option"

record security_analysis =
  security_score :: int
  is_verified :: bool
  is_honeypot :: bool
  rug_indicators :: bool
  warnings :: "string list"
  risk_level :: string

datatype py_error = ZeroDivisionError | ValueError

section \<open>Risk level\<close>

definition classify_risk_level :: "int \<Rightarrow> string" where
  "classify_risk_level score =
     (if score \<ge> 85 then ''low''
      else if score \<ge> 70 then ''medium''
      else if score \<ge> 50 then ''high''
      else ''critical'')"

section \<open>Bundle and concentration heuristics\<close>

text \<open>\<^verbatim>\<open>holders.index(holder)\<close>: the first position holding an equal element; Python raises
  \<^verbatim>\<open>ValueError\<close> when there is none.\<close>

fun index_of :: "'a list \<Rightarrow> 'a \<Rightarrow> py_error + nat" where
  "index_of [] x = Inl ValueError"
| "index_of (y # ys) x =
     (if y = x then Inr 0
      else case index_of ys x of Inl e \<Rightarrow> Inl e | Inr k \<Rightarrow> Inr (Suc k))"

text \<open>
  The inner loop of \<^verbatim>\<open>detect_bundles\<close>,
  \<^verbatim>\<open>for j, other_holder in enumerate(holders[i+1:], i+1)\<close>: the second argument is what is
  left of the slice, \<open>j\<close> the index of its head. The division by \<open>amount\<close> is evaluated
  only when \<^verbatim>\<open>other_amount > 0\<close>, and raises when \<open>amount\<close> is zero.
\<close>

fun collect_similar ::
  "real \<Rightarrow> account list \<Rightarrow> nat \<Rightarrow> account list \<Rightarrow> nat set \<Rightarrow> py_error + (account list \<times> nat set)"
where
  "collect_similar amt [] j bundle used_indices = Inr (bundle, used_indices)"
| "collect_similar amt (other_holder # rest) j bundle used_indices =
     (if j \<in> used_indices then collect_similar amt rest (Suc j) bundle used_indices
      else if amount other_holder > 0 then
        (if amt = 0 then Inl ZeroDivisionError
         else if \<bar>amt - amount other_holder\<bar> / amt < 5 / 100
           then collect_similar amt rest (Suc j) (bundle @ [other_holder]) (insert j used_indices)
           else collect_similar amt rest (Suc j) bundle used_indices)
      else collect_similar amt rest (Suc j) bundle used_indices)"

text \<open>\<^verbatim>\<open>for holder in bundle: used_indices.add(holders.index(holder))\<close>\<close>

fun mark_used :: "account list \<Rightarrow> account list \<Rightarrow> nat set \<Rightarrow> py_error + nat set" where
  "mark_used holders [] used_indices = Inr used_indices"
| "mark_used holders (holder # bundle) used_indices =
     (case index_of holders holder of
        Inl e \<Rightarrow> Inl e
      | Inr k \<Rightarrow> mark_used holders bundle (insert k used_indices))"

text \<open>
  The outer loop, \<^verbatim>\<open>for i, holder in enumerate(holders)\<close>: the second argument is the
  part of \<open>holders\<close> from index \<open>i\<close> on, so its tail is \<^verbatim>\<open>holders[i+1:]\<close>.
\<close>

fun group_bundles ::
  "account list \<Rightarrow> account list \<Rightarrow> nat \<Rightarrow> account list list \<Rightarrow> nat set \<Rightarrow> py_error + account list list"
where
  "group_bundles holders [] i bundles used_indices = Inr bundles"
| "group_bundles holders (holder # rest) i bundles used_indices =
     (if i \<in> used_indices then group_bundles holders rest (Suc i) bundles used_indices
      else case collect_similar (amount holder) rest (Suc i) [holder] used_indices of
        Inl e \<Rightarrow> Inl e
      | Inr (bundle, used') \<Rightarrow>
          if length bundle \<ge> 3 then
            (case mark_used holders bundle used' of
               Inl e \<Rightarrow> Inl e
             | Inr used'' \<Rightarrow> group_bundles holders rest (Suc i) (bundles @ [bundle]) used'')
          else group_bundles holders rest (Suc i) bundles used')"

text \<open>The whole body runs under \<^verbatim>\<open>try\<close>; any exception gives \<^verbatim>\<open>(False, 0)\<close>.\<close>

definition detect_bundles :: "account list \<Rightarrow> bool \<times> real" where
  "detect_bundles holders =
     (if length holders < 5 then (False, 0)
      else case group_bundles holders holders 0 [] {} of
        Inl e \<Rightarrow> (False, 0)
      | Inr bundles \<Rightarrow>
          if bundles \<noteq> [] then
            (let total_bundle_amount = sum_list (map (\<lambda>bundle. sum_list (map amount bundle)) bundles);
                 total_supply = sum_list (map amount holders);
                 bundle_percentage =
                   (if total_supply > 0 then total_bundle_amount / total_supply * 100 else 0)
             in (True, bundle_percentage))
          else (False, 0))"

definition classify_holder_distribution :: "account list \<Rightarrow> string" where
  "classify_holder_distribution holders =
     (if holders = [] then ''unknown''
      else let total_supply = sum_list (map amount holders) in
        if total_supply = 0 then ''unknown''
        else let top_5_amount = sum_list (map amount (take 5 holders));
                 top_5_percentage = top_5_amount / total_supply * 100
             in if top_5_percentage > 80 then ''highly_concentrated''
                else if top_5_percentage > 50 then ''concentrated''
                else if top_5_percentage > 20 then ''moderate''
                else ''distributed'')"

section \<open>Holder analysis\<close>

definition get_default_holder_analysis :: holder_analysis where
  "get_default_holder_analysis =
     \<lparr>total_holders = 0, total_supply = None, top_10_percentage = 0, top_50_percentage = 0,
      dev_wallet_percentage = 0, dev_has_sold = False, bundle_detected = False,
      bundle_percentage = 0, holder_distribution = ''unknown'', top_10_holders = None\<rparr>"

text \<open>The holder list is used in the order the provider gave it; nothing is sorted here,
  and no \<^verbatim>\<open>top_10_holders\<close> key is written.\<close>

definition process_holder_data :: "account list \<Rightarrow> holder_analysis" where
  "process_holder_data holders =
     (case holders of
        [] \<Rightarrow> get_default_holder_analysis
      | dev_wallet # _ \<Rightarrow>
          let supply = sum_list (map amount holders) in
          if supply = 0 then get_default_holder_analysis
          else
            let top_10_amount = sum_list (map amount (take 10 holders));
                top_50_amount = sum_list (map amount (take 50 holders));
                dev_percentage = (if supply > 0 then amount dev_wallet / supply * 100 else 0);
                bundles = detect_bundles holders
            in \<lparr>total_holders = length holders,
                total_supply = None,
                top_10_percentage = (if supply > 0 then top_10_amount / supply * 100 else 0),
                top_50_percentage = (if supply > 0 then top_50_amount / supply * 100 else 0),
                dev_wallet_percentage = dev_percentage,
                dev_has_sold = False,
                bundle_detected = fst bundles,
                bundle_percentage = snd bundles,
                holder_distribution = classify_holder_distribution holders,
                top_10_holders = None\<rparr>)"

text \<open>
  The reply of a holder provider to one request. \<open>None\<close> for the whole reply stands for
  an exception raised by the HTTP call or by the JSON decoding. For Helius, \<open>result\<close> is
  \<open>None\<close> when the key \<^verbatim>\<open>result\<close> is absent or falsy and otherwise holds
  \<^verbatim>\<open>result.get('token_accounts', [])\<close>; for Moralis it is \<open>None\<close> when the key
  \<^verbatim>\<open>result\<close> is absent. An entry of the Helius list that is not a dictionary, or whose
  amount is missing, null or not a number, is skipped by the code exactly as an entry of
  amount 0 is, and is represented by one.
\<close>

record api_response =
  status_code :: int
  result :: "account list option"

definition get_holder_distribution_from_helius :: "api_response option \<Rightarrow> holder_analysis option" where
  "get_holder_distribution_from_helius response =
     (case response of
        None \<Rightarrow> None
      | Some resp \<Rightarrow>
          if status_code resp = 200 then
            (case result resp of
               None \<Rightarrow> None
             | Some token_accounts \<Rightarrow>
                 let unsorted = filter (\<lambda>account. amount account > 0) token_accounts;
                     supply = sum_list (map amount unsorted)
                 in if unsorted \<noteq> [] then
                      (let holders = sort_key (\<lambda>x. - amount x) unsorted;
                           top_10 = take 10 holders;
                           top_10_balance = sum_list (map amount top_10);
                           top_10_pct = (if supply > 0 then top_10_balance / supply * 100 else 0);
                           dev_percentage =
                             (case holders of [] \<Rightarrow> 0
                              | dev_wallet # _ \<Rightarrow> if supply > 0 then amount dev_wallet / supply * 100 else 0);
                           top_50_balance = sum_list (map amount (take 50 holders));
                           top_50_pct = (if supply > 0 then top_50_balance / supply * 100 else 0)
                       in Some
                         \<lparr>total_holders = length holders,
                          total_supply = Some supply,
                          top_10_percentage = top_10_pct,
                          top_50_percentage = top_50_pct,
                          dev_wallet_percentage = dev_percentage,
                          dev_has_sold = False,
                          bundle_detected = (top_10_pct > 50),
                          bundle_percentage = (if top_10_pct > 50 then top_10_pct else 0),
                          holder_distribution = classify_holder_distribution holders,
                          top_10_holders = Some (map (\<lambda>h.
                             \<lparr>address = acc_address h, balance = amount h,
                              percentage = (if supply > 0 then amount h / supply * 100 else 0)\<rparr>) top_10)\<rparr>)
                    else None)
          else None)"

definition get_solana_holders_from_helius :: "api_response option \<Rightarrow> holder_analysis option" where
  "get_solana_holders_from_helius response =
     (case get_holder_distribution_from_helius response of
        None \<Rightarrow> None
      | Some holder_data \<Rightarrow> if total_holders holder_data > 0 then Some holder_data else None)"

definition get_ethereum_holders_from_moralis :: "api_response option \<Rightarrow> holder_analysis" where
  "get_ethereum_holders_from_moralis response =
     (case response of
        None \<Rightarrow> get_default_holder_analysis
      | Some resp \<Rightarrow>
          if status_code resp = 200 then
            (let holders = (case result resp of None \<Rightarrow> [] | Some hs \<Rightarrow> hs)
             in if holders \<noteq> [] \<and> length holders > 0 then process_holder_data holders
                else get_default_holder_analysis)
          else get_default_holder_analysis)"

definition get_bsc_holders_from_moralis :: "api_response option \<Rightarrow> holder_analysis" where
  "get_bsc_holders_from_moralis response =
     (case response of
        None \<Rightarrow> get_default_holder_analysis
      | Some resp \<Rightarrow>
          if status_code resp = 200 then
            (let holders = (case result resp of None \<Rightarrow> [] | Some hs \<Rightarrow> hs)
             in if holders \<noteq> [] \<and> length holders > 0 then process_holder_data holders
                else get_default_holder_analysis)
          else get_default_holder_analysis)"

definition analyze_solana_holders :: "api_response option \<Rightarrow> holder_analysis option" where
  "analyze_solana_holders response = get_solana_holders_from_helius response"

definition analyze_ethereum_holders :: "api_response option \<Rightarrow> holder_analysis" where
  "analyze_ethereum_holders response = get_ethereum_holders_from_moralis response"

definition analyze_bsc_holders :: "api_response option \<Rightarrow> holder_analysis" where
  "analyze_bsc_holders response = get_bsc_holders_from_moralis response"

text \<open>
  \<^verbatim>\<open>get_holder_analysis\<close> makes one request to the provider of the chain; \<open>response\<close> is
  the reply to it. \<open>None\<close> is Python's \<^verbatim>\<open>None\<close>. A chain other than the three named falls
  through to the literal default dictionary.
\<close>

definition get_holder_analysis :: "api_response option \<Rightarrow> string \<Rightarrow> holder_analysis option" where
  "get_holder_analysis response chain =
     (if chain = ''solana'' then analyze_solana_holders response
      else if chain = ''ethereum'' then Some (analyze_ethereum_holders response)
      else if chain = ''bsc'' then Some (analyze_bsc_holders response)
      else Some \<lparr>total_holders = 0, total_supply = None, top_10_percentage = 0,
                 top_50_percentage = 0, dev_wallet_percentage = 0, dev_has_sold = False,
                 bundle_detected = False, bundle_percentage = 0,
                 holder_distribution = ''unknown'', top_10_holders = None\<rparr>)"

section \<open>Security scorer\<close>

definition check_contract_verification :: "string \<Rightarrow> string \<Rightarrow> bool" where
  "check_contract_verification token_address chain = False"

definition check_honeypot_indicators :: "string \<Rightarrow> string \<Rightarrow> bool" where
  "check_honeypot_indicators token_address chain = False"

definition check_rug_pull_indicators :: "string \<Rightarrow> string \<Rightarrow> bool" where
  "check_rug_pull_indicators token_address chain = False"

text \<open>
  The body of \<^verbatim>\<open>get_security_analysis\<close> mutates two locals, \<^verbatim>\<open>security_score\<close> and
  \<^verbatim>\<open>warnings\<close>, in a sequence of \<^verbatim>\<open>if\<close> blocks. The pair of the two is passed through
  one function per block, in the order of the source. \<open>penalise\<close> is the pair of
  statements \<^verbatim>\<open>security_score -= p; warnings.append(msg)\<close> that every branch consists of.
\<close>

type_synonym scoring_state = "int \<times> string list"

definition penalise :: "int \<Rightarrow> string \<Rightarrow> scoring_state \<Rightarrow> scoring_state" where
  "penalise p msg st = (fst st - p, snd st @ [msg])"

text \<open>\<^verbatim>\<open>if not is_verified: ...\<close>\<close>

definition verification_check :: "bool \<Rightarrow> scoring_state \<Rightarrow> scoring_state" where
  "verification_check verified st =
     (if \<not> verified then penalise 20 ''Contract not verified'' st else st)"

text \<open>Dev wallet concentration: \<^verbatim>\<open>if dev_pct > 50 ... elif dev_pct > 30 ... elif dev_pct > 20\<close>\<close>

definition dev_wallet_check :: "real \<Rightarrow> scoring_state \<Rightarrow> scoring_state" where
  "dev_wallet_check dev_pct st =
     (if dev_pct > 50 then penalise 60 ''CRITICAL: Dev holds >50% - Extreme rug risk'' st
      else if dev_pct > 30 then penalise 40 ''HIGH RISK: Dev holds >30% - High rug risk'' st
      else if dev_pct > 20 then penalise 25 ''MEDIUM RISK: Dev holds >20% - Moderate rug risk'' st
      else st)"

text \<open>Top 10 holder concentration.\<close>

definition top_10_check :: "real \<Rightarrow> scoring_state \<Rightarrow> scoring_state" where
  "top_10_check top_10_pct st =
     (if top_10_pct > 70 then penalise 50 ''CRITICAL: Top 10 hold >70% - Extreme concentration'' st
      else if top_10_pct > 50 then penalise 30 ''HIGH RISK: Top 10 hold >50% - High concentration'' st
      else if top_10_pct > 40 then penalise 15 ''MEDIUM RISK: Top 10 hold >40% - Moderate concentration'' st
      else st)"

text \<open>Bundle detection; the last branch is an \<^verbatim>\<open>else\<close>, so a detected bundle always costs.\<close>

definition bundle_check :: "holder_analysis \<Rightarrow> scoring_state \<Rightarrow> scoring_state" where
  "bundle_check ha st =
     (if bundle_detected ha then
        (let bundle_pct = bundle_percentage ha in
         if bundle_pct > 30 then penalise 40 ''CRITICAL: Bundle manipulation detected'' st
         else if bundle_pct > 15 then penalise 25 ''HIGH RISK: Bundle manipulation detected'' st
         else penalise 10 ''Bundle manipulation detected'' st)
      else st)"

text \<open>\<^verbatim>\<open>if holder_analysis: ...\<close> with the three blocks above inside.\<close>

definition holder_concentration_check :: "holder_analysis option \<Rightarrow> scoring_state \<Rightarrow> scoring_state" where
  "holder_concentration_check holder_analysis st =
     (case holder_analysis of
        None \<Rightarrow> st
      | Some ha \<Rightarrow>
          let dev_pct = dev_wallet_percentage ha;
              top_10_pct = top_10_percentage ha
          in bundle_check ha (top_10_check top_10_pct (dev_wallet_check dev_pct st)))"

definition honeypot_check :: "bool \<Rightarrow> scoring_state \<Rightarrow> scoring_state" where
  "honeypot_check honeypot st =
     (if honeypot then penalise 50 ''Potential honeypot detected'' st else st)"

definition rug_pull_check :: "bool \<Rightarrow> scoring_state \<Rightarrow> scoring_state" where
  "rug_pull_check rug st =
     (if rug then penalise 30 ''Rug pull indicators detected'' st else st)"

text \<open>
  The body of \<^verbatim>\<open>get_security_analysis\<close> as a function of the results of the four calls
  it makes: the holder analysis and the three checks. The risk level is computed from
  the score before it is clamped. No step of the body raises on a holder analysis with
  numeric fields, so the \<^verbatim>\<open>except\<close> branch of the source has no counterpart.
\<close>

definition security_analysis_of ::
  "holder_analysis option \<Rightarrow> bool \<Rightarrow> bool \<Rightarrow> bool \<Rightarrow> security_analysis" where
  "security_analysis_of holder_analysis verified honeypot rug =
     (let st =
        rug_pull_check rug
          (honeypot_check honeypot
            (holder_concentration_check holder_analysis
              (verification_check verified (100, []))))
      in \<lparr>security_score = max 0 (fst st),
          is_verified = verified,
          is_honeypot = honeypot,
          rug_indicators = rug,
          warnings = snd st,
          risk_level = classify_risk_level (fst st)\<rparr>)"

text \<open>\<open>response\<close> is the reply to the holder request that \<^verbatim>\<open>get_security_analysis\<close>
  makes itself, a second request after the one of \<^verbatim>\<open>analyze_token\<close>.\<close>

definition get_security_analysis :: "api_response option \<Rightarrow> string \<Rightarrow> string \<Rightarrow> security_analysis" where
  "get_security_analysis response token_address chain =
     security_analysis_of (get_holder_analysis response chain)
       (check_contract_verification token_address chain)
       (check_honeypot_indicators token_address chain)
       (check_rug_pull_indicators token_address chain)"

section \<open>Market data\<close>

text \<open>
  One entry of the \<^verbatim>\<open>pairs\<close> array of DexScreener. A field is \<open>None\<close> when its key
  (or the dictionary holding it) is absent, so that each \<^verbatim>\<open>.get(key, default)\<close> of the
  source is a \<open>get_or\<close>. Numeric fields hold the number that \<^verbatim>\<open>float\<close> reads.
\<close>

record dex_pair =
  baseToken_name :: "string option"
  baseToken_symbol :: "string option"
  priceUsd :: "real option"
  marketCap :: "real option"
  volume_h24 :: "real option"
  pair_liquidity_usd :: "real option"
  pair_liquidity_eth :: "real option"
  pair_liquidity_btc :: "real option"
  priceChange_h24 :: "real option"
  priceChange_h1 :: "real option"
  priceChange_h6 :: "real option"
  dexId :: "string option"
  pairAddress :: "string option"
  pairCreatedAt :: "int option"
  pair_fdv :: "real option"
  boosts_active :: "int option"
  info_socials :: "(string option \<times> string option) list option"
  info_websites :: "(string option \<times> string option) list option"

text \<open>The reply to one GET of the tokens endpoint; \<open>pairs\<close> is \<^verbatim>\<open>data.get('pairs', [])\<close>.\<close>

record dex_response =
  dex_status_code :: int
  pairs :: "dex_pair list"

definition get_or :: "'a option \<Rightarrow> 'a \<Rightarrow> 'a" where
  "get_or v d = (case v of None \<Rightarrow> d | Some x \<Rightarrow> x)"

record basic_token_data =
  chain :: string
  token_address :: string
  name :: string
  symbol :: string
  price :: real
  market_cap :: real
  volume_24h :: real
  liquidity :: real
  price_change_24h :: real
  dex :: string
  pair_created_at :: int
  fdv :: real
  price_change_1h :: real
  price_change_6h :: real

definition get_basic_token_data ::
  "dex_response option \<Rightarrow> string \<Rightarrow> string \<Rightarrow> basic_token_data option" where
  "get_basic_token_data response addr chn =
     (case response of
        None \<Rightarrow> None
      | Some resp \<Rightarrow>
          if dex_status_code resp = 200 then
            (case pairs resp of
               [] \<Rightarrow> None
             | pair # _ \<Rightarrow> Some
                 \<lparr>chain = chn,
                  token_address = addr,
                  name = get_or (baseToken_name pair) ''Unknown'',
                  symbol = get_or (baseToken_symbol pair) ''UNKNOWN'',
                  price = get_or (priceUsd pair) 0,
                  market_cap = get_or (marketCap pair) 0,
                  volume_24h = get_or (volume_h24 pair) 0,
                  liquidity = get_or (pair_liquidity_usd pair) 0,
                  price_change_24h = get_or (priceChange_h24 pair) 0,
                  dex = get_or (dexId pair) ''Unknown'',
                  pair_created_at = get_or (pairCreatedAt pair) 0,
                  fdv = get_or (pair_fdv pair) 0,
                  price_change_1h = get_or (priceChange_h1 pair) 0,
                  price_change_6h = get_or (priceChange_h6 pair) 0\<rparr>)
          else None)"

record dex_pricing_info =
  is_promoted :: bool
  promotion_type :: string
  boost_count :: int
  dex_id :: string
  pair_address :: string
  pricing_pair_created_at :: int
  liquidity_usd :: real
  liquidity_eth :: real
  liquidity_btc :: real
  social_links :: "(string \<times> string) list"
  websites :: "(string \<times> string) list"

definition get_dex_pricing_info :: "dex_response option \<Rightarrow> dex_pricing_info" where
  "get_dex_pricing_info response =
     (let fallback =
        \<lparr>is_promoted = False, promotion_type = ''free'', boost_count = 0, dex_id = ''unknown'',
         pair_address = [], pricing_pair_created_at = 0, liquidity_usd = 0, liquidity_eth = 0,
         liquidity_btc = 0, social_links = [], websites = []\<rparr>
      in case response of
        None \<Rightarrow> fallback
      | Some resp \<Rightarrow>
          if dex_status_code resp = 200 then
            (case pairs resp of
               [] \<Rightarrow> fallback
             | pair # _ \<Rightarrow>
                 let promoted = (get_or (boosts_active pair) 0 > 0)
                 in \<lparr>is_promoted = promoted,
                     promotion_type = (if promoted then ''paid'' else ''free''),
                     boost_count = get_or (boosts_active pair) 0,
                     dex_id = get_or (dexId pair) ''unknown'',
                     pair_address = get_or (pairAddress pair) [],
                     pricing_pair_created_at = get_or (pairCreatedAt pair) 0,
                     liquidity_usd = get_or (pair_liquidity_usd pair) 0,
                     liquidity_eth = get_or (pair_liquidity_eth pair) 0,
                     liquidity_btc = get_or (pair_liquidity_btc pair) 0,
                     social_links =
                       map (\<lambda>social. (get_or (fst social) ''unknown'', get_or (snd social) []))
                         (get_or (info_socials pair) []),
                     websites =
                       map (\<lambda>website. (get_or (fst website) ''Website'', get_or (snd website) []))
                         (get_or (info_websites pair) [])\<rparr>)
          else fallback)"

section \<open>Analysis aggregator\<close>

text \<open>
  What the outside world answers during one call of \<^verbatim>\<open>analyze_token\<close>, one field per
  request in the order the code makes them: the two GETs of DexScreener, the holder
  request of \<^verbatim>\<open>analyze_token\<close>, the holder request repeated by
  \<^verbatim>\<open>get_security_analysis\<close>, and the reading of the clock.
\<close>

record world =
  dexscreener_basic :: "dex_response option"
  dexscreener_pricing :: "dex_response option"
  holders_first :: "api_response option"
  holders_second :: "api_response option"
  clock :: int

text \<open>
  The report is \<^verbatim>\<open>{**basic_data, 'dex_pricing': ..., ...}\<close>: the basic data extended by
  four keys. The holder section holds the value \<^verbatim>\<open>get_holder_analysis\<close> returned, which
  may be Python's \<^verbatim>\<open>None\<close>.
\<close>

record token_report = basic_token_data +
  dex_pricing :: dex_pricing_info
  holder_analysis :: "holder_analysis option"
  security_analysis :: security_analysis
  analysis_timestamp :: int

definition analyze_token :: "world \<Rightarrow> string \<Rightarrow> string \<Rightarrow> token_report option" where
  "analyze_token w addr chn =
     (case get_basic_token_data (dexscreener_basic w) addr chn of
        None \<Rightarrow> None
      | Some basic_data \<Rightarrow>
          let pricing = get_dex_pricing_info (dexscreener_pricing w);
              holders = get_holder_analysis (holders_first w) chn
          in if holders = None then None
             else
               let security = get_security_analysis (holders_second w) addr chn
               in Some (basic_token_data.extend basic_data
                          (token_report.fields pricing holders security (clock w))))"

section \<open>Chain detection and the scan command\<close>

definition startswith :: "string \<Rightarrow> string \<Rightarrow> bool" where
  "startswith s pre = (take (length pre) s = pre)"

definition detect_chain :: "string \<Rightarrow> string" where
  "detect_chain addr =
     (if length addr \<ge> 32 \<and> length addr \<le> 44 \<and> \<not> startswith addr ''0x'' then ''solana''
      else if startswith addr ''0x'' \<and> length addr = 42 then ''ethereum''
      else ''unknown'')"

text \<open>
  What \<^verbatim>\<open>scan_token\<close> of \<^verbatim>\<open>src/bot.py\<close> does, as the list of its actions in order:
  the replies it sends and the call of the analyzer. The formatting of the report and the
  banner image are not modelled; \<open>Reply_report\<close> carries the analysis that is formatted.
\<close>

datatype bot_action =
    Reply_usage
  | Send_chat_action_typing
  | Reply_unknown_chain
  | Call_analyze_token string string
  | Reply_no_holder_data
  | Reply_report token_report

definition scan_token :: "world \<Rightarrow> string list \<Rightarrow> bot_action list" where
  "scan_token w args =
     (case args of
        [] \<Rightarrow> [Reply_usage]
      | addr # _ \<Rightarrow>
          let chn = detect_chain addr in
          if chn = ''unknown'' then [Send_chat_action_typing, Reply_unknown_chain]
          else (case analyze_token w addr chn of
                  None \<Rightarrow> [Send_chat_action_typing, Call_analyze_token addr chn, Reply_no_holder_data]
                | Some token_analysis \<Rightarrow>
                    [Send_chat_action_typing, Call_analyze_token addr chn, Reply_report token_analysis]))"

section \<open>The vocabulary of the specification\<close>

text \<open>
  The penalty table of the specification (section 4.4), one function per category. These
  follow the specification's words, not the code; the scorer of the code is compared with
  them below.
\<close>

definition verification_penalty :: "bool \<Rightarrow> int" where
  "verification_penalty verified = (if verified then 0 else 20)"

definition dev_penalty :: "real \<Rightarrow> int" where
  "dev_penalty dev_pct =
     (if dev_pct > 50 then 60 else if dev_pct > 30 then 40 else if dev_pct > 20 then 25 else 0)"

definition top_10_penalty :: "real \<Rightarrow> int" where
  "top_10_penalty top_10_pct =
     (if top_10_pct > 70 then 50 else if top_10_pct > 50 then 30 else if top_10_pct > 40 then 15 else 0)"

definition bundle_penalty :: "bool \<Rightarrow> real \<Rightarrow> int" where
  "bundle_penalty detected bundle_pct =
     (if detected then (if bundle_pct > 30 then 40 else if bundle_pct > 15 then 25 else 10) else 0)"

definition honeypot_penalty :: "bool \<Rightarrow> int" where
  "honeypot_penalty honeypot = (if honeypot then 50 else 0)"

definition rug_penalty :: "bool \<Rightarrow> int" where
  "rug_penalty rug = (if rug then 30 else 0)"

text \<open>
  The specification's NotFound of the market data fetch (section 4.1): a network error, a
  status other than 200, or no trading pair. Its Unavailable of the holder fetch (section
  4.2): an error, a status other than 200, or an empty result.
\<close>

definition market_data_not_found :: "dex_response option \<Rightarrow> bool" where
  "market_data_not_found response =
     (case response of None \<Rightarrow> True | Some resp \<Rightarrow> dex_status_code resp \<noteq> 200 \<or> pairs resp = [])"

definition holder_fetch_unavailable :: "api_response option \<Rightarrow> bool" where
  "holder_fetch_unavailable response =
     (case response of
        None \<Rightarrow> True
      | Some resp \<Rightarrow> status_code resp \<noteq> 200 \<or> result resp = None \<or> result resp = Some [])"

section \<open>Sample inputs\<close>

text \<open>Concrete provider replies, used where a property is evaluated on an input.\<close>

definition account_holding :: "real \<Rightarrow> account" where
  "account_holding a = \<lparr>amount = a, owner = ''owner'', acc_address = ''account''\<rparr>"

definition holders_reply :: "real list \<Rightarrow> api_response option" where
  "holders_reply amounts = Some \<lparr>status_code = 200, result = Some (map account_holding amounts)\<rparr>"

definition sample_pair :: dex_pair where
  "sample_pair =
     \<lparr>baseToken_name = Some ''Sample'', baseToken_symbol = Some ''SMP'', priceUsd = Some 2,
      marketCap = Some 5000000, volume_h24 = Some 1000, pair_liquidity_usd = Some 50000,
      pair_liquidity_eth = None, pair_liquidity_btc = None, priceChange_h24 = Some 1,
      priceChange_h1 = None, priceChange_h6 = None, dexId = Some ''raydium'',
      pairAddress = Some ''pair'', pairCreatedAt = Some 1700000000000, pair_fdv = None,
      boosts_active = None, info_socials = None, info_websites = None\<rparr>"

definition sample_market :: "dex_response option" where
  "sample_market = Some \<lparr>dex_status_code = 200, pairs = [sample_pair]\<rparr>"

definition sample_world :: "dex_response option \<Rightarrow> api_response option \<Rightarrow> world" where
  "sample_world market holders =
     \<lparr>dexscreener_basic = market, dexscreener_pricing = market,
      holders_first = holders, holders_second = holders, clock = 1700000000\<rparr>"

abbreviation score_of :: "holder_analysis \<Rightarrow> bool \<Rightarrow> bool \<Rightarrow> bool \<Rightarrow> int" where
  "score_of ha verified honeypot rug \<equiv>
     security_score (security_analysis_of (Some ha) verified honeypot rug)"

section \<open>Properties of the risk level\<close>

text \<open>
  Claim C3. For every integer score the risk level is: at least 85 gives low, 70 to 84
  gives medium, 50 to 69 gives high, 49 or less gives critical.
\<close>

theorem classify_risk_level_bands:
  "(85 \<le> s \<longrightarrow> classify_risk_level s = ''low'') \<and>
   (70 \<le> s \<and> s \<le> 84 \<longrightarrow> classify_risk_level s = ''medium'') \<and>
   (50 \<le> s \<and> s \<le> 69 \<longrightarrow> classify_risk_level s = ''high'') \<and>
   (s \<le> 49 \<longrightarrow> classify_risk_level s = ''critical'')"
  by (simp add: classify_risk_level_def)

text \<open>The boundary scores named by the claim: 85, 84, 70, 69, 50 and 49.\<close>

theorem classify_risk_level_bands_witness:
  "classify_risk_level 85 = ''low'' \<and>
   classify_risk_level 84 = ''medium'' \<and> classify_risk_level 70 = ''medium'' \<and>
   classify_risk_level 69 = ''high'' \<and> classify_risk_level 50 = ''high'' \<and>
   classify_risk_level 49 = ''critical''"
  using classify_risk_level_bands [of 85] classify_risk_level_bands [of 84]
    classify_risk_level_bands [of 70] classify_risk_level_bands [of 69]
    classify_risk_level_bands [of 50] classify_risk_level_bands [of 49]
  by simp

section \<open>Properties of the bundle detection\<close>

text \<open>
  Claim C5. For every holder list with fewer than 5 entries, \<^verbatim>\<open>detect_bundles\<close>
  returns \<^verbatim>\<open>(False, 0)\<close>.
\<close>

theorem detect_bundles_fewer_than_five:
  "length holders < 5 \<Longrightarrow> detect_bundles holders = (False, 0)"
  by (simp add: detect_bundles_def)

theorem detect_bundles_fewer_than_five_witness:
  "length [\<lparr>amount = 7, owner = ''a'', acc_address = ''x''\<rparr>,
           \<lparr>amount = 7, owner = ''b'', acc_address = ''y''\<rparr>,
           \<lparr>amount = 7, owner = ''c'', acc_address = ''z''\<rparr>,
           \<lparr>amount = 7, owner = ''d'', acc_address = ''u''\<rparr>] < 5 \<and>
   detect_bundles
          [\<lparr>amount = 7, owner = ''a'', acc_address = ''x''\<rparr>,
           \<lparr>amount = 7, owner = ''b'', acc_address = ''y''\<rparr>,
           \<lparr>amount = 7, owner = ''c'', acc_address = ''z''\<rparr>,
           \<lparr>amount = 7, owner = ''d'', acc_address = ''u''\<rparr>] = (False, 0)"
  using detect_bundles_fewer_than_five
    [of "[\<lparr>amount = 7, owner = ''a'', acc_address = ''x''\<rparr>,
          \<lparr>amount = 7, owner = ''b'', acc_address = ''y''\<rparr>,
          \<lparr>amount = 7, owner = ''c'', acc_address = ''z''\<rparr>,
          \<lparr>amount = 7, owner = ''d'', acc_address = ''u''\<rparr>]"]
  by simp

text \<open>
  Claim C6, as stated: five holders with one identical balance give \<^verbatim>\<open>(True, 100.0)\<close>.
  It fails when that balance is zero: the guard \<^verbatim>\<open>other_amount > 0\<close> keeps every other
  holder out of the group, no group reaches three members, and the result is
  \<^verbatim>\<open>(False, 0)\<close>.
\<close>

theorem detect_bundles_zero_balance_counterexample:
  "detect_bundles
     [\<lparr>amount = 0, owner = ''a'', acc_address = ''v''\<rparr>,
      \<lparr>amount = 0, owner = ''b'', acc_address = ''w''\<rparr>,
      \<lparr>amount = 0, owner = ''c'', acc_address = ''x''\<rparr>,
      \<lparr>amount = 0, owner = ''d'', acc_address = ''y''\<rparr>,
      \<lparr>amount = 0, owner = ''e'', acc_address = ''z''\<rparr>] = (False, 0)"
  by (simp add: detect_bundles_def)

text \<open>
  Claim C6, amended. For a holder list of exactly 5 entries that all hold one identical
  positive balance, \<^verbatim>\<open>detect_bundles\<close> returns \<^verbatim>\<open>(True, 100.0)\<close>: the four later holders
  join the group of the first, and the group holds the whole observed supply.
\<close>

theorem detect_bundles_five_identical_positive:
  assumes "length holders = 5" and "\<forall>h \<in> set holders. amount h = a" and "0 < a"
  shows "detect_bundles holders = (True, 100)"
proof -
  from assms(1) obtain h1 h2 h3 h4 h5 where hs: "holders = [h1, h2, h3, h4, h5]"
    by (auto simp: length_Suc_conv eval_nat_numeral)
  with assms(2) have am:
    "amount h1 = a" "amount h2 = a" "amount h3 = a" "amount h4 = a" "amount h5 = a"
    by simp_all
  show ?thesis
    using am \<open>0 < a\<close> unfolding hs detect_bundles_def
    by (simp split: sum.splits)
qed

theorem detect_bundles_five_identical_positive_witness:
  "detect_bundles
     [\<lparr>amount = 7, owner = ''a'', acc_address = ''v''\<rparr>,
      \<lparr>amount = 7, owner = ''b'', acc_address = ''w''\<rparr>,
      \<lparr>amount = 7, owner = ''c'', acc_address = ''x''\<rparr>,
      \<lparr>amount = 7, owner = ''d'', acc_address = ''y''\<rparr>,
      \<lparr>amount = 7, owner = ''e'', acc_address = ''z''\<rparr>] = (True, 100)"
  using detect_bundles_five_identical_positive
    [of "[\<lparr>amount = 7, owner = ''a'', acc_address = ''v''\<rparr>,
          \<lparr>amount = 7, owner = ''b'', acc_address = ''w''\<rparr>,
          \<lparr>amount = 7, owner = ''c'', acc_address = ''x''\<rparr>,
          \<lparr>amount = 7, owner = ''d'', acc_address = ''y''\<rparr>,
          \<lparr>amount = 7, owner = ''e'', acc_address = ''z''\<rparr>]" 7]
  by simp

section \<open>Properties of the security scorer\<close>

lemma fst_penalise: "fst (penalise p msg st) = fst st - p"
  by (simp add: penalise_def)

lemma fst_verification_check: "fst (verification_check v st) = fst st - verification_penalty v"
  by (simp add: verification_check_def verification_penalty_def fst_penalise)

lemma fst_dev_wallet_check: "fst (dev_wallet_check d st) = fst st - dev_penalty d"
  by (simp add: dev_wallet_check_def dev_penalty_def fst_penalise)

lemma fst_top_10_check: "fst (top_10_check t st) = fst st - top_10_penalty t"
  by (simp add: top_10_check_def top_10_penalty_def fst_penalise)

lemma fst_bundle_check:
  "fst (bundle_check ha st) = fst st - bundle_penalty (bundle_detected ha) (bundle_percentage ha)"
  by (simp add: bundle_check_def bundle_penalty_def fst_penalise)

lemma fst_honeypot_check: "fst (honeypot_check h st) = fst st - honeypot_penalty h"
  by (simp add: honeypot_check_def honeypot_penalty_def fst_penalise)

lemma fst_rug_pull_check: "fst (rug_pull_check r st) = fst st - rug_penalty r"
  by (simp add: rug_pull_check_def rug_penalty_def fst_penalise)

lemmas fst_checks =
  fst_verification_check fst_dev_wallet_check fst_top_10_check fst_bundle_check
  fst_honeypot_check fst_rug_pull_check

text \<open>The score of the code is 100 less one penalty of the table per category, clamped at 0.\<close>

lemma score_closed:
  "score_of ha v h r =
     max 0 (100 - verification_penalty v - dev_penalty (dev_wallet_percentage ha)
       - top_10_penalty (top_10_percentage ha)
       - bundle_penalty (bundle_detected ha) (bundle_percentage ha)
       - honeypot_penalty h - rug_penalty r)"
  by (simp add: security_analysis_of_def holder_concentration_check_def Let_def fst_checks)

lemma score_closed_None:
  "security_score (security_analysis_of None v h r) =
     max 0 (100 - verification_penalty v - honeypot_penalty h - rug_penalty r)"
  by (simp add: security_analysis_of_def holder_concentration_check_def Let_def fst_checks)

lemma penalties_nonneg:
  "0 \<le> verification_penalty v" "0 \<le> dev_penalty d" "0 \<le> top_10_penalty t"
  "0 \<le> bundle_penalty b p" "0 \<le> honeypot_penalty h" "0 \<le> rug_penalty r"
  by (simp_all add: verification_penalty_def dev_penalty_def top_10_penalty_def
      bundle_penalty_def honeypot_penalty_def rug_penalty_def)

lemma dev_penalty_mono: "d \<le> d' \<Longrightarrow> dev_penalty d \<le> dev_penalty d'"
  by (simp add: dev_penalty_def)

lemma top_10_penalty_mono: "t \<le> t' \<Longrightarrow> top_10_penalty t \<le> top_10_penalty t'"
  by (simp add: top_10_penalty_def)

lemma bundle_penalty_mono: "p \<le> p' \<Longrightarrow> bundle_penalty b p \<le> bundle_penalty b p'"
  by (simp add: bundle_penalty_def)

lemma bundle_penalty_detected: "bundle_penalty False p \<le> bundle_penalty True p"
  by (simp add: bundle_penalty_def)

lemma score_range:
  "0 \<le> security_score (security_analysis_of ha v h r) \<and>
   security_score (security_analysis_of ha v h r) \<le> 100"
proof (cases ha)
  case None
  show ?thesis
    unfolding None score_closed_None
    using penalties_nonneg(1) [of v] penalties_nonneg(5) [of h] penalties_nonneg(6) [of r]
    by simp
next
  case (Some a)
  show ?thesis
    unfolding Some score_closed
    using penalties_nonneg(1) [of v] penalties_nonneg(5) [of h] penalties_nonneg(6) [of r]
      penalties_nonneg(2) [of "dev_wallet_percentage a"]
      penalties_nonneg(3) [of "top_10_percentage a"]
      penalties_nonneg(4) [of "bundle_detected a" "bundle_percentage a"]
    by simp
qed

text \<open>
  Claim C8. For every holder analysis (or none) and every result of the three checks, the
  security score lies between 0 and 100: it is 100 less a non-negative total penalty,
  clamped below at 0. The same holds for what \<^verbatim>\<open>get_security_analysis\<close> returns on any
  provider reply.
\<close>

theorem security_score_in_range:
  "0 \<le> security_score (security_analysis_of ha v h r) \<and>
   security_score (security_analysis_of ha v h r) \<le> 100 \<and>
   (\<exists>penalty. 0 \<le> penalty \<and> security_score (security_analysis_of ha v h r) = max 0 (100 - penalty)) \<and>
   0 \<le> security_score (get_security_analysis response tok chn) \<and>
   security_score (get_security_analysis response tok chn) \<le> 100"
proof -
  have "\<exists>penalty. 0 \<le> penalty \<and> security_score (security_analysis_of ha v h r) = max 0 (100 - penalty)"
  proof (cases ha)
    case None
    have "0 \<le> verification_penalty v + honeypot_penalty h + rug_penalty r"
      using penalties_nonneg(1) [of v] penalties_nonneg(5) [of h] penalties_nonneg(6) [of r]
      by simp
    moreover have "security_score (security_analysis_of ha v h r)
        = max 0 (100 - (verification_penalty v + honeypot_penalty h + rug_penalty r))"
      unfolding None score_closed_None by (simp add: algebra_simps)
    ultimately show ?thesis by blast
  next
    case (Some a)
    let ?p = "verification_penalty v + dev_penalty (dev_wallet_percentage a)
       + top_10_penalty (top_10_percentage a)
       + bundle_penalty (bundle_detected a) (bundle_percentage a)
       + honeypot_penalty h + rug_penalty r"
    have "0 \<le> ?p"
      using penalties_nonneg(1) [of v] penalties_nonneg(5) [of h] penalties_nonneg(6) [of r]
        penalties_nonneg(2) [of "dev_wallet_percentage a"]
        penalties_nonneg(3) [of "top_10_percentage a"]
        penalties_nonneg(4) [of "bundle_detected a" "bundle_percentage a"]
      by simp
    moreover have "security_score (security_analysis_of ha v h r) = max 0 (100 - ?p)"
      unfolding Some score_closed by (simp add: algebra_simps)
    ultimately show ?thesis by blast
  qed
  then show ?thesis
    using score_range [of ha v h r]
      score_range [of "get_holder_analysis response chn"
        "check_contract_verification tok chn"
        "check_honeypot_indicators tok chn"
        "check_rug_pull_indicators tok chn"]
    by (simp add: get_security_analysis_def)
qed

text \<open>
  Claim C2. The scorer is the body of \<^verbatim>\<open>get_security_analysis\<close> as a function of its
  inputs: the holder analysis and the results of the verification, honeypot and rug pull
  checks. Its score does not increase when one input worsens and the others are held
  fixed: a larger dev wallet percentage, a larger top 10 percentage, a larger bundle
  percentage, a bundle detected instead of none, a contract not verified instead of
  verified, a honeypot or a rug pull indicator instead of none. Each category subtracts
  exactly one penalty of the table, the first that applies. With the other inputs at
  values that cost nothing (contract verified, top 10 percentage at most 40, no bundle, no
  honeypot, no rug pull indicator), dev wallet percentages of 10, 25, 35 and 55 give the
  scores 100, 75, 60 and 40.
\<close>

theorem security_score_monotone:
  "(d \<le> d' \<longrightarrow>
      score_of (ha\<lparr>dev_wallet_percentage := d'\<rparr>) v h r
        \<le> score_of (ha\<lparr>dev_wallet_percentage := d\<rparr>) v h r) \<and>
   (t \<le> t' \<longrightarrow>
      score_of (ha\<lparr>top_10_percentage := t'\<rparr>) v h r
        \<le> score_of (ha\<lparr>top_10_percentage := t\<rparr>) v h r) \<and>
   (p \<le> p' \<longrightarrow>
      score_of (ha\<lparr>bundle_percentage := p'\<rparr>) v h r
        \<le> score_of (ha\<lparr>bundle_percentage := p\<rparr>) v h r) \<and>
   score_of (ha\<lparr>bundle_detected := True\<rparr>) v h r
     \<le> score_of (ha\<lparr>bundle_detected := False\<rparr>) v h r \<and>
   score_of ha False h r \<le> score_of ha True h r \<and>
   score_of ha v True r \<le> score_of ha v False r \<and>
   score_of ha v h True \<le> score_of ha v h False \<and>
   score_of ha v h r =
     max 0 (100 - verification_penalty v - dev_penalty (dev_wallet_percentage ha)
       - top_10_penalty (top_10_percentage ha)
       - bundle_penalty (bundle_detected ha) (bundle_percentage ha)
       - honeypot_penalty h - rug_penalty r) \<and>
   (top_10_percentage ha \<le> 40 \<and> \<not> bundle_detected ha \<longrightarrow>
      score_of (ha\<lparr>dev_wallet_percentage := 10\<rparr>) True False False = 100 \<and>
      score_of (ha\<lparr>dev_wallet_percentage := 25\<rparr>) True False False = 75 \<and>
      score_of (ha\<lparr>dev_wallet_percentage := 35\<rparr>) True False False = 60 \<and>
      score_of (ha\<lparr>dev_wallet_percentage := 55\<rparr>) True False False = 40)"
proof -
  have dev: "score_of (ha\<lparr>dev_wallet_percentage := d'\<rparr>) v h r
        \<le> score_of (ha\<lparr>dev_wallet_percentage := d\<rparr>) v h r" if "d \<le> d'"
    unfolding score_closed using dev_penalty_mono [OF that] by simp
  have top: "score_of (ha\<lparr>top_10_percentage := t'\<rparr>) v h r
        \<le> score_of (ha\<lparr>top_10_percentage := t\<rparr>) v h r" if "t \<le> t'"
    unfolding score_closed using top_10_penalty_mono [OF that] by simp
  have bun: "score_of (ha\<lparr>bundle_percentage := p'\<rparr>) v h r
        \<le> score_of (ha\<lparr>bundle_percentage := p\<rparr>) v h r" if "p \<le> p'"
    unfolding score_closed using bundle_penalty_mono [OF that, of "bundle_detected ha"] by simp
  have det: "score_of (ha\<lparr>bundle_detected := True\<rparr>) v h r
     \<le> score_of (ha\<lparr>bundle_detected := False\<rparr>) v h r"
    unfolding score_closed using bundle_penalty_detected [of "bundle_percentage ha"] by simp
  have ver: "score_of ha False h r \<le> score_of ha True h r"
    unfolding score_closed by (simp add: verification_penalty_def)
  have hon: "score_of ha v True r \<le> score_of ha v False r"
    unfolding score_closed by (simp add: honeypot_penalty_def)
  have rug: "score_of ha v h True \<le> score_of ha v h False"
    unfolding score_closed by (simp add: rug_penalty_def)
  have ex: "score_of (ha\<lparr>dev_wallet_percentage := 10\<rparr>) True False False = 100 \<and>
      score_of (ha\<lparr>dev_wallet_percentage := 25\<rparr>) True False False = 75 \<and>
      score_of (ha\<lparr>dev_wallet_percentage := 35\<rparr>) True False False = 60 \<and>
      score_of (ha\<lparr>dev_wallet_percentage := 55\<rparr>) True False False = 40"
    if "top_10_percentage ha \<le> 40" "\<not> bundle_detected ha"
    unfolding score_closed using that
    by (simp add: verification_penalty_def dev_penalty_def top_10_penalty_def
        bundle_penalty_def honeypot_penalty_def rug_penalty_def)
  show ?thesis
    using dev top bun det ver hon rug ex score_closed [of ha v h r] by blast
qed

text \<open>
  An instance: the default holder analysis, each percentage raised from 10 to 55, and the
  dev wallet sequence of the claim on a verified contract.
\<close>

theorem security_score_monotone_witness:
  "(10::real) \<le> 55 \<and>
   score_of (get_default_holder_analysis\<lparr>dev_wallet_percentage := 55\<rparr>) False False False
     \<le> score_of (get_default_holder_analysis\<lparr>dev_wallet_percentage := 10\<rparr>) False False False \<and>
   score_of (get_default_holder_analysis\<lparr>top_10_percentage := 55\<rparr>) False False False
     \<le> score_of (get_default_holder_analysis\<lparr>top_10_percentage := 10\<rparr>) False False False \<and>
   score_of (get_default_holder_analysis\<lparr>bundle_percentage := 55\<rparr>) False False False
     \<le> score_of (get_default_holder_analysis\<lparr>bundle_percentage := 10\<rparr>) False False False \<and>
   top_10_percentage get_default_holder_analysis \<le> 40 \<and>
   \<not> bundle_detected get_default_holder_analysis \<and>
   score_of (get_default_holder_analysis\<lparr>dev_wallet_percentage := 10\<rparr>) True False False = 100 \<and>
   score_of (get_default_holder_analysis\<lparr>dev_wallet_percentage := 25\<rparr>) True False False = 75 \<and>
   score_of (get_default_holder_analysis\<lparr>dev_wallet_percentage := 35\<rparr>) True False False = 60 \<and>
   score_of (get_default_holder_analysis\<lparr>dev_wallet_percentage := 55\<rparr>) True False False = 40"
proof -
  have le: "(10::real) \<le> 55" by simp
  have quiet: "top_10_percentage get_default_holder_analysis \<le> 40 \<and>
      \<not> bundle_detected get_default_holder_analysis"
    by (simp add: get_default_holder_analysis_def)
  from security_score_monotone
    [of 10 55 get_default_holder_analysis False False False 10 55 10 55]
    le quiet
  show ?thesis by blast
qed

section \<open>Properties of the chain detection\<close>

lemma startswith_0x: "startswith addr ''0x'' = (take 2 addr = ''0x'')"
  by (simp add: startswith_def numeral_2_eq_2)

text \<open>
  Claim C7. For every address string, \<^verbatim>\<open>detect_chain\<close> returns ethereum when the string
  starts with 0x and has length exactly 42, solana when its length is between 32 and 44
  and it does not start with 0x, and unknown for every other shape; in that last case
  \<^verbatim>\<open>scan_token\<close> replies at once that the chain could not be determined and never calls
  the analyzer, whatever the providers would have answered.
\<close>

theorem detect_chain_shapes:
  "(take 2 addr = ''0x'' \<and> length addr = 42 \<longrightarrow> detect_chain addr = ''ethereum'') \<and>
   (32 \<le> length addr \<and> length addr \<le> 44 \<and> take 2 addr \<noteq> ''0x'' \<longrightarrow>
      detect_chain addr = ''solana'') \<and>
   (\<not> (take 2 addr = ''0x'' \<and> length addr = 42) \<and>
    \<not> (32 \<le> length addr \<and> length addr \<le> 44 \<and> take 2 addr \<noteq> ''0x'') \<longrightarrow>
      detect_chain addr = ''unknown'' \<and>
      scan_token w (addr # more_args) = [Send_chat_action_typing, Reply_unknown_chain])"
  by (simp add: detect_chain_def scan_token_def startswith_0x Let_def)

text \<open>An address of each of the three shapes; the third is 0x followed by 38 characters.\<close>

theorem detect_chain_shapes_witness:
  "detect_chain ''0x6982508145454Ce325dDbE47a25d4ec3d2311933'' = ''ethereum'' \<and>
   detect_chain ''DezXAZ8z7PnrnRJjz3wXBoRgixCa6xjnB7YaB1pPB263'' = ''solana'' \<and>
   detect_chain ''0x6982508145454Ce325dDbE47a25d4ec3d23119'' = ''unknown'' \<and>
   scan_token (sample_world sample_market (holders_reply [5, 4]))
     [''0x6982508145454Ce325dDbE47a25d4ec3d23119'']
     = [Send_chat_action_typing, Reply_unknown_chain]"
proof -
  have eth: "take 2 ''0x6982508145454Ce325dDbE47a25d4ec3d2311933'' = ''0x'' \<and>
      length ''0x6982508145454Ce325dDbE47a25d4ec3d2311933'' = 42"
    by simp
  have sol: "32 \<le> length ''DezXAZ8z7PnrnRJjz3wXBoRgixCa6xjnB7YaB1pPB263'' \<and>
      length ''DezXAZ8z7PnrnRJjz3wXBoRgixCa6xjnB7YaB1pPB263'' \<le> 44 \<and>
      take 2 ''DezXAZ8z7PnrnRJjz3wXBoRgixCa6xjnB7YaB1pPB263'' \<noteq> ''0x''"
    by simp
  have other: "\<not> (take 2 ''0x6982508145454Ce325dDbE47a25d4ec3d23119'' = ''0x'' \<and>
        length ''0x6982508145454Ce325dDbE47a25d4ec3d23119'' = 42) \<and>
      \<not> (32 \<le> length ''0x6982508145454Ce325dDbE47a25d4ec3d23119'' \<and>
        length ''0x6982508145454Ce325dDbE47a25d4ec3d23119'' \<le> 44 \<and>
        take 2 ''0x6982508145454Ce325dDbE47a25d4ec3d23119'' \<noteq> ''0x'')"
    by simp
  from detect_chain_shapes [of "''0x6982508145454Ce325dDbE47a25d4ec3d2311933''"] eth
  have 1: "detect_chain ''0x6982508145454Ce325dDbE47a25d4ec3d2311933'' = ''ethereum''"
    by blast
  from detect_chain_shapes [of "''DezXAZ8z7PnrnRJjz3wXBoRgixCa6xjnB7YaB1pPB263''"] sol
  have 2: "detect_chain ''DezXAZ8z7PnrnRJjz3wXBoRgixCa6xjnB7YaB1pPB263'' = ''solana''"
    by blast
  from detect_chain_shapes [of "''0x6982508145454Ce325dDbE47a25d4ec3d23119''"
      "sample_world sample_market (holders_reply [5, 4])" "[]"] other
  have 3: "detect_chain ''0x6982508145454Ce325dDbE47a25d4ec3d23119'' = ''unknown'' \<and>
      scan_token (sample_world sample_market (holders_reply [5, 4]))
        [''0x6982508145454Ce325dDbE47a25d4ec3d23119'']
        = [Send_chat_action_typing, Reply_unknown_chain]"
    by blast
  from 1 2 3 show ?thesis by blast
qed

section \<open>Properties of the Solana holder analysis\<close>

text \<open>What \<^verbatim>\<open>get_holder_distribution_from_helius\<close> returns when it returns an analysis.\<close>

lemma helius_Some:
  assumes "get_holder_distribution_from_helius response = Some ha"
  shows "\<exists>resp accounts.
           response = Some resp \<and> status_code resp = 200 \<and> result resp = Some accounts \<and>
           filter (\<lambda>account. amount account > 0) accounts \<noteq> [] \<and>
           total_holders ha = length (filter (\<lambda>account. amount account > 0) accounts) \<and>
           bundle_detected ha = (top_10_percentage ha > 50) \<and>
           bundle_percentage ha = (if top_10_percentage ha > 50 then top_10_percentage ha else 0) \<and>
           top_10_holders ha = Some (map (\<lambda>h.
              \<lparr>address = acc_address h, balance = amount h,
               percentage =
                 (if sum_list (map amount (filter (\<lambda>account. amount account > 0) accounts)) > 0
                  then amount h / sum_list (map amount (filter (\<lambda>account. amount account > 0) accounts)) * 100
                  else 0)\<rparr>)
              (take 10 (sort_key (\<lambda>x. - amount x) (filter (\<lambda>account. amount account > 0) accounts))))"
  using assms
  by (auto simp: get_holder_distribution_from_helius_def Let_def split: option.splits if_splits)

lemma solana_is_helius:
  assumes "get_holder_analysis response ''solana'' = Some ha"
  shows "get_holder_distribution_from_helius response = Some ha"
  using assms
  by (auto simp: get_holder_analysis_def analyze_solana_holders_def
      get_solana_holders_from_helius_def split: option.splits if_splits)



section \<open>Properties of the aggregator\<close>

lemma report_sections:
  "holder_analysis (basic_token_data.extend b (token_report.fields p h s t)) = h"
  "security_analysis (basic_token_data.extend b (token_report.fields p h s t)) = s"
  "dex_pricing (basic_token_data.extend b (token_report.fields p h s t)) = p"
  "analysis_timestamp (basic_token_data.extend b (token_report.fields p h s t)) = t"
  by (simp_all add: basic_token_data.defs token_report.defs)

lemma basic_data_None_iff:
  "get_basic_token_data response addr chn = None \<longleftrightarrow> market_data_not_found response"
  by (simp add: get_basic_token_data_def market_data_not_found_def
      split: option.splits list.splits)

lemma analyze_token_Some:
  assumes "analyze_token w addr chn = Some r"
  shows "holder_analysis r = get_holder_analysis (holders_first w) chn \<and>
         holder_analysis r \<noteq> None \<and>
         security_analysis r = get_security_analysis (holders_second w) addr chn"
  using assms
  by (auto simp: analyze_token_def Let_def report_sections split: option.splits if_splits)

lemma analyze_token_holder_section:
  assumes "analyze_token w addr chn = Some r"
  shows "\<exists>ha. holder_analysis r = Some ha \<and>
           get_holder_analysis (holders_first w) chn = Some ha"
proof -
  from analyze_token_Some [OF assms]
  have e: "holder_analysis r = get_holder_analysis (holders_first w) chn"
    and n: "holder_analysis r \<noteq> None"
    by blast+
  from n obtain ha where h: "holder_analysis r = Some ha" by blast
  from e h have "get_holder_analysis (holders_first w) chn = Some ha" by (rule subst)
  with h show ?thesis by blast
qed

lemma solana_unavailable:
  "holder_fetch_unavailable response \<Longrightarrow> get_holder_analysis response ''solana'' = None"
  by (auto simp: holder_fetch_unavailable_def get_holder_analysis_def analyze_solana_holders_def
      get_solana_holders_from_helius_def get_holder_distribution_from_helius_def Let_def
      split: option.splits)

lemma evm_unavailable:
  "holder_fetch_unavailable response \<Longrightarrow> chn = ''ethereum'' \<or> chn = ''bsc'' \<Longrightarrow>
     get_holder_analysis response chn = Some get_default_holder_analysis"
  by (auto simp: holder_fetch_unavailable_def get_holder_analysis_def
      analyze_ethereum_holders_def analyze_bsc_holders_def
      get_ethereum_holders_from_moralis_def get_bsc_holders_from_moralis_def Let_def
      split: option.splits)

text \<open>
  Claim C1. When the market data fetch finds nothing, \<^verbatim>\<open>analyze_token\<close> returns
  \<^verbatim>\<open>None\<close> on every chain. When market data is there and the holder fetch is unavailable,
  the result depends on the chain: \<^verbatim>\<open>None\<close> for solana; for ethereum and bsc a report whose
  holder section is the default holder analysis, with 0 holders and distribution unknown.
  Every report that is returned has a holder section, the one the holder fetch gave, and the
  security section computed by \<^verbatim>\<open>get_security_analysis\<close>.
\<close>

theorem analyze_token_failure_policy:
  "(market_data_not_found (dexscreener_basic w) \<longrightarrow> analyze_token w addr chn = None) \<and>
   (\<not> market_data_not_found (dexscreener_basic w) \<and> chn = ''solana'' \<and>
      holder_fetch_unavailable (holders_first w) \<longrightarrow> analyze_token w addr chn = None) \<and>
   (\<not> market_data_not_found (dexscreener_basic w) \<and> (chn = ''ethereum'' \<or> chn = ''bsc'') \<and>
      holder_fetch_unavailable (holders_first w) \<longrightarrow>
      (\<exists>report. analyze_token w addr chn = Some report \<and>
         holder_analysis report = Some get_default_holder_analysis \<and>
         total_holders get_default_holder_analysis = 0 \<and>
         holder_distribution get_default_holder_analysis = ''unknown'' \<and>
         security_analysis report = get_security_analysis (holders_second w) addr chn)) \<and>
   (analyze_token w addr chn = Some r \<longrightarrow>
      holder_analysis r \<noteq> None \<and>
      holder_analysis r = get_holder_analysis (holders_first w) chn \<and>
      security_analysis r = get_security_analysis (holders_second w) addr chn)"
proof -
  have market: "analyze_token w addr chn = None" if "market_data_not_found (dexscreener_basic w)"
    using that basic_data_None_iff [of "dexscreener_basic w" addr chn]
    by (simp add: analyze_token_def)
  have solana: "analyze_token w addr chn = None"
    if "chn = ''solana''" "holder_fetch_unavailable (holders_first w)"
    using solana_unavailable [OF that(2)] that(1)
    by (simp add: analyze_token_def Let_def split: option.splits)
  have evm: "\<exists>report. analyze_token w addr chn = Some report \<and>
         holder_analysis report = Some get_default_holder_analysis \<and>
         total_holders get_default_holder_analysis = 0 \<and>
         holder_distribution get_default_holder_analysis = ''unknown'' \<and>
         security_analysis report = get_security_analysis (holders_second w) addr chn"
    if "\<not> market_data_not_found (dexscreener_basic w)" "chn = ''ethereum'' \<or> chn = ''bsc''"
      "holder_fetch_unavailable (holders_first w)"
  proof -
    from that(1) obtain basic_data
      where b: "get_basic_token_data (dexscreener_basic w) addr chn = Some basic_data"
      using basic_data_None_iff [of "dexscreener_basic w" addr chn] by auto
    have h: "get_holder_analysis (holders_first w) chn = Some get_default_holder_analysis"
      using evm_unavailable [OF that(3) that(2)] .
    show ?thesis
      by (simp add: analyze_token_def Let_def b h report_sections get_default_holder_analysis_def)
  qed
  have returned: "holder_analysis r \<noteq> None \<and>
      holder_analysis r = get_holder_analysis (holders_first w) chn \<and>
      security_analysis r = get_security_analysis (holders_second w) addr chn"
    if "analyze_token w addr chn = Some r"
    using analyze_token_Some [OF that] by blast
  show ?thesis
  proof (intro conjI impI)
    assume "market_data_not_found (dexscreener_basic w)"
    then show "analyze_token w addr chn = None" by (rule market)
  next
    assume "\<not> market_data_not_found (dexscreener_basic w) \<and> chn = ''solana'' \<and>
      holder_fetch_unavailable (holders_first w)"
    then show "analyze_token w addr chn = None" using solana by simp
  next
    assume "\<not> market_data_not_found (dexscreener_basic w) \<and> (chn = ''ethereum'' \<or> chn = ''bsc'') \<and>
      holder_fetch_unavailable (holders_first w)"
    then have "\<not> market_data_not_found (dexscreener_basic w)" "chn = ''ethereum'' \<or> chn = ''bsc''"
      "holder_fetch_unavailable (holders_first w)"
      by simp_all
    then show "\<exists>report. analyze_token w addr chn = Some report \<and>
         holder_analysis report = Some get_default_holder_analysis \<and>
         total_holders get_default_holder_analysis = 0 \<and>
         holder_distribution get_default_holder_analysis = ''unknown'' \<and>
         security_analysis report = get_security_analysis (holders_second w) addr chn"
      by (rule evm)
  next
    assume a: "analyze_token w addr chn = Some r"
    show "holder_analysis r \<noteq> None" using returned [OF a] by blast
    show "holder_analysis r = get_holder_analysis (holders_first w) chn"
      using returned [OF a] by blast
    show "security_analysis r = get_security_analysis (holders_second w) addr chn"
      using returned [OF a] by blast
  qed
qed

text \<open>
  Four instances: no trading pair; market data with a failing Helius on solana; market data
  with a failing Moralis on ethereum; and a Solana token with two holders, whose report
  carries both sections.
\<close>

theorem analyze_token_failure_policy_witness:
  "analyze_token
     (sample_world (Some \<lparr>dex_status_code = 200, pairs = []\<rparr>) (holders_reply [5, 4]))
     ''mint'' ''solana'' = None \<and>
   analyze_token
     (sample_world sample_market (Some \<lparr>status_code = 500, result = None\<rparr>))
     ''mint'' ''solana'' = None \<and>
   map_option holder_analysis
     (analyze_token
        (sample_world sample_market (Some \<lparr>status_code = 500, result = None\<rparr>))
        ''0xtoken'' ''ethereum'') = Some (Some get_default_holder_analysis) \<and>
   Option.bind
     (analyze_token (sample_world sample_market (holders_reply [5, 4])) ''mint'' ''solana'')
     holder_analysis \<noteq> None"
proof -
  have mk: "\<not> market_data_not_found (dexscreener_basic (sample_world sample_market hs))" for hs
    by (simp add: market_data_not_found_def sample_world_def sample_market_def)
  have 1: "analyze_token
     (sample_world (Some \<lparr>dex_status_code = 200, pairs = []\<rparr>) (holders_reply [5, 4]))
     ''mint'' ''solana'' = None"
  proof -
    have "market_data_not_found (dexscreener_basic
        (sample_world (Some \<lparr>dex_status_code = 200, pairs = []\<rparr>) (holders_reply [5, 4])))"
      by (simp add: market_data_not_found_def sample_world_def)
    with analyze_token_failure_policy
      [of "sample_world (Some \<lparr>dex_status_code = 200, pairs = []\<rparr>) (holders_reply [5, 4])"
        "''mint''" "''solana''"]
    show ?thesis by blast
  qed
  have un: "holder_fetch_unavailable
      (holders_first (sample_world sample_market (Some \<lparr>status_code = 500, result = None\<rparr>)))"
    by (simp add: holder_fetch_unavailable_def sample_world_def)
  have 2: "analyze_token
     (sample_world sample_market (Some \<lparr>status_code = 500, result = None\<rparr>))
     ''mint'' ''solana'' = None"
    using analyze_token_failure_policy
      [of "sample_world sample_market (Some \<lparr>status_code = 500, result = None\<rparr>)"
        "''mint''" "''solana''"]
      un mk [of "Some \<lparr>status_code = 500, result = None\<rparr>"]
    by blast
  have 3: "map_option holder_analysis
     (analyze_token
        (sample_world sample_market (Some \<lparr>status_code = 500, result = None\<rparr>))
        ''0xtoken'' ''ethereum'') = Some (Some get_default_holder_analysis)"
  proof -
    from analyze_token_failure_policy
      [of "sample_world sample_market (Some \<lparr>status_code = 500, result = None\<rparr>)"
        "''0xtoken''" "''ethereum''"]
      un mk [of "Some \<lparr>status_code = 500, result = None\<rparr>"]
    obtain report where "analyze_token
        (sample_world sample_market (Some \<lparr>status_code = 500, result = None\<rparr>))
        ''0xtoken'' ''ethereum'' = Some report"
      "holder_analysis report = Some get_default_holder_analysis"
      by blast
    then show ?thesis by simp
  qed
  have 4: "Option.bind
     (analyze_token (sample_world sample_market (holders_reply [5, 4])) ''mint'' ''solana'')
     holder_analysis \<noteq> None"
  proof -
    have "analyze_token (sample_world sample_market (holders_reply [5, 4])) ''mint'' ''solana''
        \<noteq> None"
      by (simp add: analyze_token_def sample_world_def sample_market_def holders_reply_def
          get_basic_token_data_def get_holder_analysis_def analyze_solana_holders_def
          get_solana_holders_from_helius_def get_holder_distribution_from_helius_def
          account_holding_def Let_def)
    then obtain report where r:
      "analyze_token (sample_world sample_market (holders_reply [5, 4])) ''mint'' ''solana''
         = Some report"
      by blast
    with analyze_token_failure_policy
      [of "sample_world sample_market (holders_reply [5, 4])" "''mint''" "''solana''" report]
    have "holder_analysis report \<noteq> None" by blast
    with r show ?thesis by simp
  qed
  from 1 2 3 4 show ?thesis by blast
qed

section \<open>Properties of the top 10 holders\<close>

lemma process_holder_data_no_top_10: "top_10_holders (process_holder_data holders) = None"
  by (simp add: process_holder_data_def get_default_holder_analysis_def Let_def
      split: list.splits)

lemma evm_no_top_10:
  assumes "chn \<noteq> ''solana''" and "get_holder_analysis response chn = Some ha"
  shows "top_10_holders ha = None"
  using assms
  by (auto simp: get_holder_analysis_def analyze_ethereum_holders_def analyze_bsc_holders_def
      get_ethereum_holders_from_moralis_def get_bsc_holders_from_moralis_def
      process_holder_data_no_top_10 get_default_holder_analysis_def Let_def
      split: if_splits option.splits)

lemma sorted_descending_take:
  "sorted_wrt (\<lambda>a b. amount b \<le> amount a) (take n (sort_key (\<lambda>x. - amount x) xs))"
proof -
  have "sorted (map (\<lambda>x. - amount x) (sort_key (\<lambda>x. - amount x) xs))"
    by simp
  then have "sorted_wrt (\<lambda>a b. amount b \<le> amount a) (sort_key (\<lambda>x. - amount x) xs)"
    by (simp add: sorted_wrt_map)
  then show ?thesis
    by (rule sorted_wrt_take)
qed

lemma sorted_descending_hd:
  assumes "x \<in> set xs"
  shows "amount x \<le> amount (hd (sort_key (\<lambda>x. - amount x) xs))"
proof -
  let ?ys = "sort_key (\<lambda>x. - amount x) xs"
  have s: "sorted_wrt (\<lambda>a b. amount b \<le> amount a) ?ys"
    using sorted_descending_take [of "length xs" xs] by simp
  from assms have mem: "x \<in> set ?ys" by simp
  then obtain y ys where ys: "?ys = y # ys" by (cases ?ys) auto
  with s have "\<forall>z \<in> set ys. amount z \<le> amount y" by simp
  with mem ys show ?thesis by auto
qed

text \<open>
  Claim C9, as stated: every report that is returned carries a \<^verbatim>\<open>top_10_holders\<close>
  sequence. Only \<^verbatim>\<open>get_holder_distribution_from_helius\<close> writes that key. On ethereum a
  report is returned with a holder section built by \<^verbatim>\<open>process_holder_data\<close>, which has no
  such key; the presentation layer reads it with \<^verbatim>\<open>.get('top_10_holders', [])\<close>.
\<close>

theorem top_10_holders_ethereum_counterexample:
  "analyze_token (sample_world sample_market (holders_reply [5, 4])) ''0xtoken'' ''ethereum''
     \<noteq> None \<and>
   Option.bind
     (analyze_token (sample_world sample_market (holders_reply [5, 4])) ''0xtoken'' ''ethereum'')
     holder_analysis \<noteq> None \<and>
   Option.bind
     (Option.bind
        (analyze_token (sample_world sample_market (holders_reply [5, 4])) ''0xtoken'' ''ethereum'')
        holder_analysis)
     top_10_holders = None"
proof -
  let ?w = "sample_world sample_market (holders_reply [5, 4])"
  have b: "get_basic_token_data (dexscreener_basic ?w) ''0xtoken'' ''ethereum'' \<noteq> None"
    by (simp add: get_basic_token_data_def sample_world_def sample_market_def)
  have h: "get_holder_analysis (holders_first ?w) ''ethereum''
      = Some (process_holder_data (map account_holding [5, 4]))"
    by (simp add: get_holder_analysis_def analyze_ethereum_holders_def
        get_ethereum_holders_from_moralis_def sample_world_def holders_reply_def)
  from b h show ?thesis
    by (auto simp: analyze_token_def Let_def report_sections process_holder_data_no_top_10)
qed

text \<open>
  Claim C9, amended. Every report returned for the chain solana carries a
  \<^verbatim>\<open>top_10_holders\<close> sequence of at most 10 entries, sorted by balance in descending
  order, whose first entry holds at least as much as every account the provider returned;
  its length is the smaller of 10 and the number of holders, so it has exactly 10 entries
  when there are at least 10 holders, the holders being the returned accounts of positive
  balance. A report returned for any other chain has a holder section without
  \<^verbatim>\<open>top_10_holders\<close>.
\<close>

theorem top_10_holders_solana:
  "(analyze_token w addr ''solana'' = Some r \<longrightarrow>
      (\<exists>ha tops.
         holder_analysis r = Some ha \<and> top_10_holders ha = Some tops \<and>
         length tops \<le> 10 \<and>
         length tops = min 10 (total_holders ha) \<and>
         (10 \<le> total_holders ha \<longrightarrow> length tops = 10) \<and>
         sorted_wrt (\<lambda>a b. balance b \<le> balance a) tops \<and>
         (\<forall>resp accounts. holders_first w = Some resp \<and> result resp = Some accounts \<longrightarrow>
            total_holders ha = length (filter (\<lambda>account. amount account > 0) accounts) \<and>
            (\<forall>account \<in> set accounts. amount account \<le> balance (hd tops))))) \<and>
   (chn \<noteq> ''solana'' \<and> analyze_token w addr chn = Some r \<longrightarrow>
      (\<exists>ha. holder_analysis r = Some ha \<and> top_10_holders ha = None))"
proof (intro conjI impI)
  assume a: "analyze_token w addr ''solana'' = Some r"
  from analyze_token_holder_section [OF a] obtain ha
    where ha: "holder_analysis r = Some ha"
      and g: "get_holder_analysis (holders_first w) ''solana'' = Some ha"
    by blast
  let ?pos = "\<lambda>account. amount account > 0"
  from helius_Some [OF solana_is_helius [OF g]] obtain resp accounts tops where
    r: "holders_first w = Some resp" "result resp = Some accounts"
    and ne: "filter ?pos accounts \<noteq> []"
    and n: "total_holders ha = length (filter ?pos accounts)"
    and t: "top_10_holders ha = Some tops"
    and tops: "map balance tops
       = map amount (take 10 (sort_key (\<lambda>x. - amount x) (filter ?pos accounts)))"
    by (auto simp: comp_def)
  let ?hs = "sort_key (\<lambda>x. - amount x) (filter ?pos accounts)"
  have len: "length tops = min 10 (total_holders ha)"
    using arg_cong [OF tops, of length] n by (simp add: min.commute)
  have "sorted_wrt (\<lambda>a b. b \<le> a) (map balance tops)"
    unfolding tops using sorted_descending_take [of 10 "filter ?pos accounts"]
    by (simp add: sorted_wrt_map)
  then have sorted: "sorted_wrt (\<lambda>a b. balance b \<le> balance a) tops"
    by (simp add: sorted_wrt_map)
  have hs_ne: "?hs \<noteq> []"
    using ne by (metis length_0_conv length_sort)
  have "hd (map balance tops) = amount (hd ?hs)"
    unfolding tops using hs_ne by (simp add: hd_map hd_take)
  moreover have "tops \<noteq> []"
  proof -
    have "0 < length (filter ?pos accounts)" using ne by simp
    with len n have "0 < length tops" by (simp add: min_def)
    then show ?thesis by auto
  qed
  ultimately have hd: "balance (hd tops) = amount (hd ?hs)"
    by (simp add: hd_map)
  have largest: "amount account \<le> balance (hd tops)" if "account \<in> set accounts" for account
  proof (cases "amount account > 0")
    case True
    with that have "account \<in> set (filter ?pos accounts)" by simp
    from sorted_descending_hd [OF this] hd show ?thesis by simp
  next
    case False
    from ne obtain p where p: "p \<in> set (filter ?pos accounts)"
      by (cases "filter ?pos accounts") auto
    then have "0 < amount p" by simp
    with sorted_descending_hd [OF p] hd False show ?thesis by simp
  qed
  have all: "\<forall>resp' accounts'. holders_first w = Some resp' \<and> result resp' = Some accounts' \<longrightarrow>
      total_holders ha = length (filter ?pos accounts') \<and>
      (\<forall>account \<in> set accounts'. amount account \<le> balance (hd tops))"
    using r n largest by auto
  show "\<exists>ha tops.
         holder_analysis r = Some ha \<and> top_10_holders ha = Some tops \<and>
         length tops \<le> 10 \<and>
         length tops = min 10 (total_holders ha) \<and>
         (10 \<le> total_holders ha \<longrightarrow> length tops = 10) \<and>
         sorted_wrt (\<lambda>a b. balance b \<le> balance a) tops \<and>
         (\<forall>resp accounts. holders_first w = Some resp \<and> result resp = Some accounts \<longrightarrow>
            total_holders ha = length (filter (\<lambda>account. amount account > 0) accounts) \<and>
            (\<forall>account \<in> set accounts. amount account \<le> balance (hd tops)))"
    using ha t len sorted all by (intro exI [of _ ha] exI [of _ tops]) simp
next
  assume "chn \<noteq> ''solana'' \<and> analyze_token w addr chn = Some r"
  then have c: "chn \<noteq> ''solana''" and a: "analyze_token w addr chn = Some r"
    by simp_all
  from analyze_token_holder_section [OF a] obtain ha
    where ha: "holder_analysis r = Some ha"
      and g: "get_holder_analysis (holders_first w) chn = Some ha"
    by blast
  from evm_no_top_10 [OF c g] ha
  show "\<exists>ha. holder_analysis r = Some ha \<and> top_10_holders ha = None"
    by simp
qed

text \<open>
  Two instances. A Solana token with twelve holders, returned by the provider out of
  order, the largest holding 40 of an observed supply of 100: the report lists ten holders
  in descending order. The same holders on ethereum: the report has no such list.
\<close>

theorem top_10_holders_solana_witness:
  "(\<exists>r ha tops.
      analyze_token
        (sample_world sample_market (holders_reply [2, 10, 40, 9, 8, 7, 6, 5, 4, 4, 3, 2]))
        ''mint'' ''solana'' = Some r \<and>
      holder_analysis r = Some ha \<and> top_10_holders ha = Some tops \<and>
      total_holders ha = 12 \<and> length tops = 10 \<and>
      sorted_wrt (\<lambda>a b. balance b \<le> balance a) tops \<and>
      40 \<le> balance (hd tops)) \<and>
   (\<exists>r ha.
      analyze_token
        (sample_world sample_market (holders_reply [2, 10, 40, 9, 8, 7, 6, 5, 4, 4, 3, 2]))
        ''0xtoken'' ''ethereum'' = Some r \<and>
      holder_analysis r = Some ha \<and> top_10_holders ha = None)"
proof -
  let ?reply = "holders_reply [2, 10, 40, 9, 8, 7, 6, 5, 4, 4, 3, 2]"
  let ?accounts = "map account_holding [2, 10, 40, 9, 8, 7, 6, 5, 4, 4, 3, 2]"
  let ?w = "sample_world sample_market ?reply"
  have b: "get_basic_token_data (dexscreener_basic ?w) addr chn \<noteq> None" for addr chn
    by (simp add: get_basic_token_data_def sample_world_def sample_market_def)
  have first: "holders_first ?w = Some \<lparr>status_code = 200, result = Some ?accounts\<rparr> \<and>
      result \<lparr>status_code = 200, result = Some ?accounts\<rparr> = Some ?accounts"
    by (simp add: sample_world_def holders_reply_def)
  have "get_holder_analysis (holders_first ?w) ''solana'' \<noteq> None"
    by (simp add: sample_world_def holders_reply_def get_holder_analysis_def
        analyze_solana_holders_def get_solana_holders_from_helius_def
        get_holder_distribution_from_helius_def account_holding_def Let_def)
  with b [of "''mint''" "''solana''"]
  have "analyze_token ?w ''mint'' ''solana'' \<noteq> None"
    by (auto simp: analyze_token_def Let_def)
  then obtain r where r: "analyze_token ?w ''mint'' ''solana'' = Some r"
    by blast
  from top_10_holders_solana [of ?w "''mint''" r "''solana''"] r
  obtain ha tops where s:
    "holder_analysis r = Some ha" "top_10_holders ha = Some tops"
    "length tops = min 10 (total_holders ha)"
    "sorted_wrt (\<lambda>a b. balance b \<le> balance a) tops"
    "\<forall>resp accounts. holders_first ?w = Some resp \<and> result resp = Some accounts \<longrightarrow>
        total_holders ha = length (filter (\<lambda>account. amount account > 0) accounts) \<and>
        (\<forall>account \<in> set accounts. amount account \<le> balance (hd tops))"
    by blast
  from s(5) first
  have n: "total_holders ha = length (filter (\<lambda>account. amount account > 0) ?accounts)"
    and top: "\<forall>account \<in> set ?accounts. amount account \<le> balance (hd tops)"
    by blast+
  from n have twelve: "total_holders ha = 12"
    by (simp add: account_holding_def)
  from top have forty: "40 \<le> balance (hd tops)"
    by (simp add: account_holding_def)
  from s(3) twelve have ten: "length tops = 10" by simp
  have solana: "\<exists>r ha tops.
      analyze_token ?w ''mint'' ''solana'' = Some r \<and>
      holder_analysis r = Some ha \<and> top_10_holders ha = Some tops \<and>
      total_holders ha = 12 \<and> length tops = 10 \<and>
      sorted_wrt (\<lambda>a b. balance b \<le> balance a) tops \<and>
      40 \<le> balance (hd tops)"
    using r s(1) s(2) twelve ten s(4) forty by blast
  have "get_holder_analysis (holders_first ?w) ''ethereum'' \<noteq> None"
    by (simp add: get_holder_analysis_def)
  with b [of "''0xtoken''" "''ethereum''"]
  have "analyze_token ?w ''0xtoken'' ''ethereum'' \<noteq> None"
    by (auto simp: analyze_token_def Let_def)
  then obtain r' where r': "analyze_token ?w ''0xtoken'' ''ethereum'' = Some r'"
    by blast
  have "''ethereum'' \<noteq> ''solana''" by simp
  with top_10_holders_solana [of ?w "''0xtoken''" r' "''ethereum''"] r'
  have "\<exists>ha. holder_analysis r' = Some ha \<and> top_10_holders ha = None"
    by blast
  with r' have evm: "\<exists>r ha.
      analyze_token ?w ''0xtoken'' ''ethereum'' = Some r \<and>
      holder_analysis r = Some ha \<and> top_10_holders ha = None"
    by blast
  from solana evm show ?thesis by blast
qed

section \<open>Properties of the concentration classification\<close>







end
